theory Spec2Isabelle
  imports Main "HOL-Library.Word"
begin

section \<open>The B+Tree index of PP3/src/btree.cpp\<close>

text \<open>
  A shallow embedding of \<^verbatim>\<open>src/PP3/src/btree.cpp\<close>. The header \<^verbatim>\<open>btree.h\<close>, the
  types of \<^verbatim>\<open>types.h\<close>, the buffer manager and the file layer are not part of the
  sources; what the code needs of them is either a parameter of the model or is
  modelled from the specification and marked as such.
\<close>

subsection \<open>Types and constants\<close>

text \<open>
  A C++ \<^verbatim>\<open>int\<close> key is a 32-bit word compared through \<open>sint\<close>. Page numbers and
  array indices are natural numbers; the source only compares, copies and
  increments them.
\<close>

type_synonym PageId = nat
type_synonym key = "32 word"

text \<open>
  Modelled from the spec: \<^verbatim>\<open>INTARRAYLEAFSIZE\<close> and \<^verbatim>\<open>INTARRAYNONLEAFSIZE\<close> are
  defined in the missing header. They are parameters of every function that uses
  them.
\<close>

record Consts =
  INTARRAYLEAFSIZE :: nat
  INTARRAYNONLEAFSIZE :: nat

record RecordId =
  page_number :: PageId
  slot_number :: nat

text \<open>\<^verbatim>\<open>RecordId{}\<close>, the value that marks an unoccupied slot.\<close>

definition emptyRid :: RecordId where
  "emptyRid = \<lparr>page_number = 0, slot_number = 0\<rparr>"

text \<open>
  Modelled from the spec: the two node layouts of the missing header. A leaf holds
  \<open>L\<close> keys, \<open>L\<close> record ids and the page number of its right sibling; a non-leaf
  holds \<open>N\<close> keys and \<open>N + 1\<close> child page numbers. The arrays are lists of that
  length.
\<close>

record LeafNodeInt =
  keyArray :: "key list"
  ridArray :: "RecordId list"
  rightSibPageNo :: PageId

record NonLeafNodeInt =
  keyArray :: "key list"
  pageNoArray :: "PageId list"

text \<open>
  Modelled from the spec: a page starts with a discriminant that is \<open>-1\<close> exactly
  for the image of a leaf. The typed model keeps the discriminant as the
  constructor, so that \<^verbatim>\<open>isLeaf\<close> followed by one of the two casts is a case
  distinction on the page.
\<close>

datatype Page = LeafPage LeafNodeInt | NonLeafPage NonLeafNodeInt

fun isLeaf :: "Page \<Rightarrow> bool" where
  "isLeaf (LeafPage _) = True"
| "isLeaf (NonLeafPage _) = False"

text \<open>\<^verbatim>\<open>new LeafNodeInt()\<close> and \<^verbatim>\<open>new NonLeafNodeInt()\<close>: value-initialised images.\<close>

definition new_LeafNodeInt :: "Consts \<Rightarrow> LeafNodeInt" where
  "new_LeafNodeInt c =
     \<lparr>LeafNodeInt.keyArray = replicate (INTARRAYLEAFSIZE c) 0,
      ridArray = replicate (INTARRAYLEAFSIZE c) emptyRid,
      rightSibPageNo = 0\<rparr>"

definition new_NonLeafNodeInt :: "Consts \<Rightarrow> NonLeafNodeInt" where
  "new_NonLeafNodeInt c =
     \<lparr>NonLeafNodeInt.keyArray = replicate (INTARRAYNONLEAFSIZE c) 0,
      pageNoArray = replicate (Suc (INTARRAYNONLEAFSIZE c)) 0\<rparr>"

subsection \<open>Generic helpers\<close>

definition isNonLeafNodeFull :: "Consts \<Rightarrow> NonLeafNodeInt \<Rightarrow> bool" where
  "isNonLeafNodeFull c node \<longleftrightarrow> pageNoArray node ! INTARRAYNONLEAFSIZE c \<noteq> 0"

definition isLeafNodeFull :: "Consts \<Rightarrow> LeafNodeInt \<Rightarrow> bool" where
  "isLeafNodeFull c node \<longleftrightarrow> ridArray node ! (INTARRAYLEAFSIZE c - 1) \<noteq> emptyRid"

text \<open>
  The loop \<^verbatim>\<open>for (i = start; i < len; i++) if (P(arr[i])) return i;\<close> that
  \<^verbatim>\<open>findArrayIndex\<close>, \<^verbatim>\<open>getLeafLen\<close> and \<^verbatim>\<open>getNonLeafLen\<close> run. \<open>None\<close> is the
  fall through the loop.
\<close>

function first_index :: "('a \<Rightarrow> bool) \<Rightarrow> 'a list \<Rightarrow> nat \<Rightarrow> nat \<Rightarrow> nat option" where
  "first_index P arr len i =
     (if i < len then (if P (arr ! i) then Some i else first_index P arr len (Suc i))
      else None)"
  by pat_completeness auto
termination
  by (relation "measure (\<lambda>(P, arr, len, i). len - i)") auto

declare first_index.simps [simp del]

text \<open>\<^verbatim>\<open>findArrayIndex\<close>; the result \<open>-1\<close> of the source is \<open>None\<close>.\<close>

definition findArrayIndex :: "key list \<Rightarrow> nat \<Rightarrow> key \<Rightarrow> bool \<Rightarrow> nat option" where
  "findArrayIndex arr len k includeCurrentKey =
     (if includeCurrentKey then first_index (\<lambda>a. sint k \<le> sint a) arr len 0
      else first_index (\<lambda>a. sint k < sint a) arr len 0)"

definition getLeafLen :: "Consts \<Rightarrow> LeafNodeInt \<Rightarrow> nat" where
  "getLeafLen c node =
     (case first_index (\<lambda>r. r = emptyRid) (ridArray node) (INTARRAYLEAFSIZE c) 0 of
        Some i \<Rightarrow> i
      | None \<Rightarrow> INTARRAYLEAFSIZE c)"

definition getNonLeafLen :: "Consts \<Rightarrow> NonLeafNodeInt \<Rightarrow> nat" where
  "getNonLeafLen c node =
     (case first_index (\<lambda>p. p = 0) (pageNoArray node) (Suc (INTARRAYNONLEAFSIZE c)) 1 of
        Some i \<Rightarrow> i
      | None \<Rightarrow> INTARRAYNONLEAFSIZE c + 1)"

definition findIndexNonLeaf :: "Consts \<Rightarrow> NonLeafNodeInt \<Rightarrow> key \<Rightarrow> nat" where
  "findIndexNonLeaf c node k =
     (let len = getNonLeafLen c node in
      case findArrayIndex (NonLeafNodeInt.keyArray node) (len - 1) k True of
        None \<Rightarrow> len - 1
      | Some result \<Rightarrow> result)"

definition findInsertionIndexLeaf :: "Consts \<Rightarrow> LeafNodeInt \<Rightarrow> key \<Rightarrow> nat" where
  "findInsertionIndexLeaf c node k =
     (let len = getLeafLen c node in
      case findArrayIndex (LeafNodeInt.keyArray node) len k True of
        None \<Rightarrow> len
      | Some result \<Rightarrow> result)"

definition findScanIndexLeaf :: "Consts \<Rightarrow> LeafNodeInt \<Rightarrow> key \<Rightarrow> bool \<Rightarrow> nat option" where
  "findScanIndexLeaf c node k includeCurrentKey =
     findArrayIndex (LeafNodeInt.keyArray node) (getLeafLen c node) k includeCurrentKey"

text \<open>
  \<^verbatim>\<open>memcpy(dst, src, n * sizeof elem)\<close> into the start of an array, where \<open>src\<close> is
  the source array from the pointer on, and \<^verbatim>\<open>memset(&a[i], 0, n * sizeof elem)\<close>.
\<close>

definition memcpy :: "'a list \<Rightarrow> 'a list \<Rightarrow> nat \<Rightarrow> 'a list" where
  "memcpy dst src n = take n src @ drop n dst"

definition memset :: "'a list \<Rightarrow> nat \<Rightarrow> 'a \<Rightarrow> nat \<Rightarrow> 'a list" where
  "memset a i z n = take i a @ replicate n z @ drop (i + n) a"

subsection \<open>Splitting and inserting within a node\<close>

text \<open>
  The source changes \<open>node\<close> in place and returns the new node; the model returns
  the changed node and the new node.
\<close>

definition splitNonLeafNode ::
  "Consts \<Rightarrow> NonLeafNodeInt \<Rightarrow> nat \<Rightarrow> bool \<Rightarrow> NonLeafNodeInt \<times> NonLeafNodeInt" where
  "splitNonLeafNode c node index moveKeyUp =
     (let newNode = new_NonLeafNodeInt c;
          rightsize = INTARRAYNONLEAFSIZE c - index;
          keys = NonLeafNodeInt.keyArray node;
          newKeys =
            (if moveKeyUp then memcpy (NonLeafNodeInt.keyArray newNode) (drop index keys) rightsize
             else memcpy (NonLeafNodeInt.keyArray newNode) (drop (index + 1) keys) (rightsize - 1));
          keys' = memset keys index 0 rightsize;
          pgs = pageNoArray node;
          newPgs = memcpy (pageNoArray newNode) (drop (index + 1) pgs) rightsize;
          pgs' = memset pgs (index + 1) 0 rightsize
      in (node\<lparr>NonLeafNodeInt.keyArray := keys', pageNoArray := pgs'\<rparr>,
          newNode\<lparr>NonLeafNodeInt.keyArray := newKeys, pageNoArray := newPgs\<rparr>))"

definition splitLeafNode ::
  "Consts \<Rightarrow> LeafNodeInt \<Rightarrow> nat \<Rightarrow> LeafNodeInt \<times> LeafNodeInt" where
  "splitLeafNode c node index =
     (let newNode = new_LeafNodeInt c;
          rightsize = INTARRAYLEAFSIZE c - index;
          keys = LeafNodeInt.keyArray node;
          rids = ridArray node
      in (node\<lparr>LeafNodeInt.keyArray := memset keys index 0 rightsize,
                ridArray := memset rids index emptyRid rightsize\<rparr>,
          newNode\<lparr>LeafNodeInt.keyArray :=
                     memcpy (LeafNodeInt.keyArray newNode) (drop index keys) rightsize,
                   ridArray := memcpy (ridArray newNode) (drop index rids) rightsize\<rparr>))"

text \<open>The shifting loops \<^verbatim>\<open>for (i = SIZE - 1; i > index; i--)\<close>.\<close>

function insertToNonLeafNode_loop :: "NonLeafNodeInt \<Rightarrow> nat \<Rightarrow> nat \<Rightarrow> NonLeafNodeInt" where
  "insertToNonLeafNode_loop node i index =
     (if index < i then
        insertToNonLeafNode_loop
          (node\<lparr>NonLeafNodeInt.keyArray :=
                   (NonLeafNodeInt.keyArray node)[i := NonLeafNodeInt.keyArray node ! (i - 1)],
                 pageNoArray := (pageNoArray node)[i + 1 := pageNoArray node ! i]\<rparr>)
          (i - 1) index
      else node)"
  by pat_completeness auto
termination
  by (relation "measure (\<lambda>(node, i, index). i)") auto

declare insertToNonLeafNode_loop.simps [simp del]

definition insertToNonLeafNode ::
  "Consts \<Rightarrow> NonLeafNodeInt \<Rightarrow> nat \<Rightarrow> key \<Rightarrow> PageId \<Rightarrow> NonLeafNodeInt" where
  "insertToNonLeafNode c node index k pageID =
     (let node1 = insertToNonLeafNode_loop node (INTARRAYNONLEAFSIZE c - 1) index
      in node1\<lparr>NonLeafNodeInt.keyArray := (NonLeafNodeInt.keyArray node1)[index := k],
               pageNoArray := (pageNoArray node1)[index + 1 := pageID]\<rparr>)"

function insertToLeafNode_loop :: "LeafNodeInt \<Rightarrow> nat \<Rightarrow> nat \<Rightarrow> LeafNodeInt" where
  "insertToLeafNode_loop node i index =
     (if index < i then
        insertToLeafNode_loop
          (node\<lparr>LeafNodeInt.keyArray :=
                   (LeafNodeInt.keyArray node)[i := LeafNodeInt.keyArray node ! (i - 1)],
                 ridArray :=
                   (ridArray node)[i := (ridArray node ! i)
                      \<lparr>page_number := page_number (ridArray node ! (i - 1)),
                       slot_number := slot_number (ridArray node ! (i - 1))\<rparr>]\<rparr>)
          (i - 1) index
      else node)"
  by pat_completeness auto
termination
  by (relation "measure (\<lambda>(node, i, index). i)") auto

declare insertToLeafNode_loop.simps [simp del]

definition insertToLeafNode ::
  "Consts \<Rightarrow> LeafNodeInt \<Rightarrow> nat \<Rightarrow> key \<Rightarrow> RecordId \<Rightarrow> LeafNodeInt" where
  "insertToLeafNode c node index k rid =
     (let node1 = insertToLeafNode_loop node (INTARRAYLEAFSIZE c - 1) index
      in node1\<lparr>LeafNodeInt.keyArray := (LeafNodeInt.keyArray node1)[index := k],
               ridArray :=
                 (ridArray node1)[index := (ridArray node1 ! index)
                    \<lparr>page_number := page_number rid, slot_number := slot_number rid\<rparr>]\<rparr>)"

subsection \<open>The buffer manager and the index file\<close>

text \<open>
  The exceptions of the source. \<open>BufMgrException\<close> stands for whatever the buffer
  manager raises. \<open>OutsideModel\<close> is no exception of the program: the model
  stops with it where the behaviour of the source is not defined by a typed page
  store, that is where it would read the bytes of a page through the other node
  layout, follow a pointer that was never assigned, or read past the end of a
  record.
\<close>

datatype exn =
    BadOpcodesException
  | BadScanrangeException
  | ScanNotInitializedException
  | IndexScanCompletedException
  | BufMgrException
  | OutsideModel

text \<open>
  Modelled from the spec: the buffer manager together with the index file (both
  missing from the sources), as the index sees them through \<^verbatim>\<open>bufMgr\<close> and
  \<^verbatim>\<open>file\<close>. \<open>pages\<close> lists the page images written so far, each with its page
  number and the latest first, so that \<open>map_of\<close> finds the image last written
  under a page number; \<open>num_pages\<close> counts the pages allocated so far.
  \<^verbatim>\<open>alloc_page\<close> hands out the next page number, which is never 0. \<^verbatim>\<open>read_page\<close> returns the existing page; what
  it does for a page number that holds no image (page number 0 in particular) is
  not determined by the specification, so it is the parameter \<open>absent\<close>:
  \<open>None\<close> when the buffer manager raises an exception there, \<open>Some p\<close> when it
  delivers the page \<open>p\<close>. Every change of a page in the source is followed by
  an unpin with the dirty flag set, so the model does not track pins and
  \<^verbatim>\<open>unpin_page\<close> leaves the pages as they are.
\<close>

record BufFile =
  pages :: "(PageId \<times> Page) list"
  num_pages :: nat
  absent :: "Page option"

definition allocPage :: "BufFile \<Rightarrow> PageId \<times> BufFile" where
  "allocPage f = (Suc (num_pages f), f\<lparr>num_pages := Suc (num_pages f)\<rparr>)"

definition readPage :: "BufFile \<Rightarrow> PageId \<Rightarrow> exn + Page" where
  "readPage f pid =
     (case map_of (pages f) pid of
        Some p \<Rightarrow> Inr p
      | None \<Rightarrow> (case absent f of None \<Rightarrow> Inl BufMgrException | Some p \<Rightarrow> Inr p))"

definition unPinPage :: "BufFile \<Rightarrow> PageId \<Rightarrow> bool \<Rightarrow> BufFile" where
  "unPinPage f pid dirty = f"

text \<open>
  \<^verbatim>\<open>setNode(page, node)\<close> where \<open>page\<close> is the frame of page \<open>pid\<close>: the node image
  overwrites the page.
\<close>

definition setNode :: "BufFile \<Rightarrow> PageId \<Rightarrow> Page \<Rightarrow> BufFile" where
  "setNode f pid node = f\<lparr>pages := (pid, node) # pages f\<rparr>"

definition createPageForNode :: "BufFile \<Rightarrow> Page \<Rightarrow> PageId \<times> BufFile" where
  "createPageForNode f node =
     (case allocPage f of
        (pid, f1) \<Rightarrow> (pid, unPinPage (setNode f1 pid node) pid True))"

definition getPageByPid :: "BufFile \<Rightarrow> PageId \<Rightarrow> exn + Page" where
  "getPageByPid f pid = readPage f pid"

text \<open>
  What a \<^verbatim>\<open>Page *\<close> that \<^verbatim>\<open>getPageByPid f pid\<close> returned points to: the frame of
  page \<open>pid\<close>, with the changes made to that page since.
\<close>

definition frame :: "BufFile \<Rightarrow> PageId \<Rightarrow> exn + Page" where
  "frame f pid = (case readPage f pid of Inl e \<Rightarrow> Inl OutsideModel | Inr p \<Rightarrow> Inr p)"

text \<open>
  \<^verbatim>\<open>getLeafNodeFromPage\<close>, where the source does not test \<^verbatim>\<open>isLeaf\<close> first. A page
  that was written as a leaf is that leaf. A page whose bytes are all zero reads
  as zeros through either layout: in the typed model it is the value-initialised
  non-leaf image (its discriminant 0 is not \<open>-1\<close>), and its leaf view has the
  fields of the value-initialised leaf. What any other non-leaf image looks like
  through the leaf layout is not defined by the model.
\<close>

definition getLeafNodeFromPage :: "Consts \<Rightarrow> Page \<Rightarrow> exn + LeafNodeInt" where
  "getLeafNodeFromPage c page =
     (case page of
        LeafPage node \<Rightarrow> Inr node
      | NonLeafPage node \<Rightarrow>
          if node = new_NonLeafNodeInt c then Inr (new_LeafNodeInt c) else Inl OutsideModel)"

subsection \<open>Insert\<close>

text \<open>
  A function that can raise returns the exception or its result, together with
  the state at that moment: an exception does not undo what was written before.
  An \<^verbatim>\<open>int *midVal\<close> out-parameter is an argument (the content before the call)
  and a component of the result (the content after it). A local \<^verbatim>\<open>int\<close> that the
  source declares without initialising it starts as \<open>indeterminate\<close>; the source
  reads such a local only after a callee has written it.
\<close>

definition indeterminate :: key where
  "indeterminate = 0"

definition insertToLeafPage ::
  "Consts \<Rightarrow> BufFile \<Rightarrow> Page \<Rightarrow> PageId \<Rightarrow> key \<Rightarrow> RecordId \<Rightarrow> key
     \<Rightarrow> (exn + PageId \<times> key) \<times> BufFile" where
  "insertToLeafPage c f origPage origPageId k rid midVal =
     (case getLeafNodeFromPage c origPage of
        Inl e \<Rightarrow> (Inl e, f)
      | Inr origNode \<Rightarrow>
          let index = findInsertionIndexLeaf c origNode k in
          if \<not> isLeafNodeFull c origNode then
            (let origNode1 = insertToLeafNode c origNode index k rid;
                 f1 = setNode f origPageId (LeafPage origNode1);
                 f2 = unPinPage f1 origPageId True
             in (Inr (0, midVal), f2))
          else
            let middleIndex = INTARRAYLEAFSIZE c div 2;
                insertToLeft = index < middleIndex;
                (origNode1, newNode) =
                  splitLeafNode c origNode (middleIndex + (if insertToLeft then 1 else 0));
                (origNode2, newNode2) =
                  (if insertToLeft then (insertToLeafNode c origNode1 index k rid, newNode)
                   else (origNode1, insertToLeafNode c newNode (index - middleIndex) k rid));
                f0 = setNode f origPageId (LeafPage origNode2);
                (newPageId, f1) = createPageForNode f0 (LeafPage newNode2)
            in (case getPageByPid f1 newPageId of
                 Inl e \<Rightarrow> (Inl e, f1)
               | Inr newPage \<Rightarrow>
                   let newNode3 = newNode2\<lparr>rightSibPageNo := rightSibPageNo origNode2\<rparr>;
                       origNode3 = origNode2\<lparr>rightSibPageNo := newPageId\<rparr>;
                       f2 = setNode f1 origPageId (LeafPage origNode3);
                       f3 = setNode f2 newPageId (LeafPage newNode3);
                       midVal' = LeafNodeInt.keyArray newNode3 ! 0;
                       f4 = unPinPage f3 origPageId True;
                       f5 = unPinPage f4 newPageId True
                   in (Inr (newPageId, midVal'), f5)))"

text \<open>
  \<^verbatim>\<open>insertHelper\<close> recurses along child page numbers, which need not end on an
  arbitrary page store; the first argument bounds the depth of the recursion and
  \<open>None\<close> says that the bound was reached. After the recursive call the source
  reads \<open>origNode\<close> through its pointer into the frame of page \<open>origPageId\<close>, so the
  model reads that page again.
\<close>

fun insertHelper ::
  "nat \<Rightarrow> Consts \<Rightarrow> BufFile \<Rightarrow> PageId \<Rightarrow> key \<Rightarrow> RecordId \<Rightarrow> key
     \<Rightarrow> ((exn + PageId \<times> key) \<times> BufFile) option" where
  "insertHelper 0 c f origPageId k rid midVal = None"
| "insertHelper (Suc n) c f origPageId k rid midVal =
     (case getPageByPid f origPageId of
        Inl e \<Rightarrow> Some (Inl e, f)
      | Inr (LeafPage leaf) \<Rightarrow>
          Some (insertToLeafPage c f (LeafPage leaf) origPageId k rid midVal)
      | Inr (NonLeafPage origNode0) \<Rightarrow>
          (let origChildPageId = pageNoArray origNode0 ! findIndexNonLeaf c origNode0 k in
           case insertHelper n c f origChildPageId k rid indeterminate of
             None \<Rightarrow> None
           | Some (Inl e, f1) \<Rightarrow> Some (Inl e, f1)
           | Some (Inr (newChildPageId, newChildMidVal), f1) \<Rightarrow>
               (if newChildPageId = 0 then
                  Some (Inr (0, midVal), unPinPage f1 origPageId False)
                else
                  (case frame f1 origPageId of
                     Inr (NonLeafPage origNode) \<Rightarrow>
                       (let index = findIndexNonLeaf c origNode newChildMidVal in
                        if \<not> isNonLeafNodeFull c origNode then
                          (let origNode1 =
                                 insertToNonLeafNode c origNode index
                                   newChildMidVal newChildPageId;
                               f2 = setNode f1 origPageId (NonLeafPage origNode1);
                               f3 = unPinPage f2 origPageId True
                           in Some (Inr (0, midVal), f3))
                        else
                          (let middleIndex = (INTARRAYNONLEAFSIZE c - 1) div 2;
                               insertToLeft = index < middleIndex;
                               splitIndex = middleIndex + (if insertToLeft then 1 else 0);
                               insertIndex =
                                 (if insertToLeft then index else index - middleIndex);
                               moveKeyUp = (\<not> insertToLeft \<and> insertIndex = 0);
                               midVal' =
                                 (if moveKeyUp then newChildMidVal
                                  else NonLeafNodeInt.keyArray origNode ! splitIndex);
                               (origNode1, newNode) =
                                 splitNonLeafNode c origNode splitIndex moveKeyUp;
                               (origNode2, newNode2) =
                                 (if \<not> moveKeyUp then
                                    (if insertToLeft then
                                       (insertToNonLeafNode c origNode1 insertIndex
                                          newChildMidVal newChildPageId, newNode)
                                     else
                                       (origNode1,
                                        insertToNonLeafNode c newNode insertIndex
                                          newChildMidVal newChildPageId))
                                  else (origNode1, newNode));
                               f2 = setNode f1 origPageId (NonLeafPage origNode2);
                               f3 = unPinPage f2 origPageId True;
                               (newPageId, f4) = createPageForNode f3 (NonLeafPage newNode2)
                           in Some (Inr (newPageId, midVal'), f4)))
                   | Inr (LeafPage _) \<Rightarrow> Some (Inl OutsideModel, f1)
                   | Inl e \<Rightarrow> Some (Inl OutsideModel, f1)))))"

subsection \<open>The index object\<close>

datatype Operator = LT | LTE | GTE | GT

datatype Datatype = INTEGER | DOUBLE | STRING

record IndexMetaInfo =
  relationName :: string
  attrByteOffset :: int
  attrType :: Datatype
  rootPageNo :: PageId

text \<open>
  The members of \<^verbatim>\<open>BTreeIndex\<close> that \<^verbatim>\<open>btree.cpp\<close> uses. \<open>file'\<close> stands for both
  \<^verbatim>\<open>bufMgr\<close> and \<^verbatim>\<open>file\<close>. \<open>currentPageData\<close> is a pointer into the buffer pool:
  the number of the page whose frame it points to, or \<open>None\<close> while it has not
  been assigned.
\<close>

record BTreeIndex =
  file' :: BufFile
  indexMetaInfo :: IndexMetaInfo
  attributeType :: Datatype
  attrByteOffset :: int
  scanExecuting :: bool
  nextEntry :: nat
  currentPageNum :: PageId
  currentPageData :: "PageId option"
  lowValInt :: key
  highValInt :: key
  lowOp :: Operator
  highOp :: Operator

definition insertEntry ::
  "nat \<Rightarrow> Consts \<Rightarrow> BTreeIndex \<Rightarrow> key \<Rightarrow> RecordId \<Rightarrow> ((exn + unit) \<times> BTreeIndex) option" where
  "insertEntry fuel c this k rid =
     (case insertHelper fuel c (file' this) (rootPageNo (indexMetaInfo this)) k rid
             indeterminate of
        None \<Rightarrow> None
      | Some (Inl e, f1) \<Rightarrow> Some (Inl e, this\<lparr>file' := f1\<rparr>)
      | Some (Inr (newPageId, splittedPageMidval), f1) \<Rightarrow>
          (if newPageId = 0 then Some (Inr (), this\<lparr>file' := f1\<rparr>)
           else
             (case allocPage f1 of
                (pid, f2) \<Rightarrow>
                  let newRoot = new_NonLeafNodeInt c;
                      newRoot1 =
                        newRoot\<lparr>NonLeafNodeInt.keyArray :=
                                  (NonLeafNodeInt.keyArray newRoot)[0 := splittedPageMidval]\<rparr>;
                      newRoot2 =
                        newRoot1\<lparr>pageNoArray :=
                                   (pageNoArray newRoot1)[0 := rootPageNo (indexMetaInfo this)]\<rparr>;
                      newRoot3 =
                        newRoot2\<lparr>pageNoArray := (pageNoArray newRoot2)[1 := newPageId]\<rparr>;
                      f3 = setNode f2 pid (NonLeafPage newRoot3);
                      f4 = unPinPage f3 pid True
                  in Some (Inr (),
                       this\<lparr>file' := f4,
                            indexMetaInfo := (indexMetaInfo this)\<lparr>rootPageNo := pid\<rparr>\<rparr>))))"

subsection \<open>Scan\<close>

text \<open>
  \<^verbatim>\<open>getLeafNodeFromPage(currentPageData)\<close>: the leaf in the frame that
  \<open>currentPageData\<close> points to.
\<close>

definition currentLeaf :: "Consts \<Rightarrow> BTreeIndex \<Rightarrow> exn + LeafNodeInt" where
  "currentLeaf c this =
     (case currentPageData this of
        None \<Rightarrow> Inl OutsideModel
      | Some pid \<Rightarrow>
          (case frame (file' this) pid of
             Inl e \<Rightarrow> Inl e
           | Inr page \<Rightarrow> getLeafNodeFromPage c page))"

fun initPageId :: "nat \<Rightarrow> Consts \<Rightarrow> BTreeIndex \<Rightarrow> ((exn + unit) \<times> BTreeIndex) option" where
  "initPageId 0 c this = None"
| "initPageId (Suc n) c this =
     (case getPageByPid (file' this) (currentPageNum this) of
        Inl e \<Rightarrow> Some (Inl e, this)
      | Inr page \<Rightarrow>
          (let this1 = this\<lparr>currentPageData := Some (currentPageNum this)\<rparr> in
           case page of
             LeafPage _ \<Rightarrow> Some (Inr (), this1)
           | NonLeafPage node \<Rightarrow>
               let this2 = this1\<lparr>file' := unPinPage (file' this1) (currentPageNum this1) False\<rparr>;
                   this3 =
                     this2\<lparr>currentPageNum :=
                              pageNoArray node ! findIndexNonLeaf c node (lowValInt this2)\<rparr>
               in initPageId n c this3))"

definition moveToNextPage :: "BTreeIndex \<Rightarrow> LeafNodeInt \<Rightarrow> (exn + unit) \<times> BTreeIndex" where
  "moveToNextPage this node =
     (let this1 = this\<lparr>file' := unPinPage (file' this) (currentPageNum this) False\<rparr>;
          this2 = this1\<lparr>currentPageNum := rightSibPageNo node\<rparr>
      in case getPageByPid (file' this2) (currentPageNum this2) of
           Inl e \<Rightarrow> (Inl e, this2)
         | Inr page \<Rightarrow>
             (Inr (), this2\<lparr>currentPageData := Some (currentPageNum this2), nextEntry := 0\<rparr>))"

definition initEntryIndex :: "Consts \<Rightarrow> BTreeIndex \<Rightarrow> (exn + unit) \<times> BTreeIndex" where
  "initEntryIndex c this =
     (case currentLeaf c this of
        Inl e \<Rightarrow> (Inl e, this)
      | Inr node \<Rightarrow>
          (case findScanIndexLeaf c node (lowValInt this) (lowOp this = GTE) of
             None \<Rightarrow> moveToNextPage this node
           | Some entryIndex \<Rightarrow> (Inr (), this\<lparr>nextEntry := entryIndex\<rparr>)))"

definition setNextEntry :: "Consts \<Rightarrow> BTreeIndex \<Rightarrow> (exn + unit) \<times> BTreeIndex" where
  "setNextEntry c this =
     (let this1 = this\<lparr>nextEntry := nextEntry this + 1\<rparr> in
      case currentLeaf c this1 of
        Inl e \<Rightarrow> (Inl e, this1)
      | Inr node \<Rightarrow>
          if INTARRAYLEAFSIZE c \<le> nextEntry this1
             \<or> page_number (ridArray node ! nextEntry this1) = 0
          then moveToNextPage this1 node
          else (Inr (), this1))"

definition startScan ::
  "nat \<Rightarrow> Consts \<Rightarrow> BTreeIndex \<Rightarrow> key \<Rightarrow> Operator \<Rightarrow> key \<Rightarrow> Operator
     \<Rightarrow> ((exn + unit) \<times> BTreeIndex) option" where
  "startScan fuel c this lowValParm lowOpParm highValParm highOpParm =
     (if lowOpParm \<noteq> GT \<and> lowOpParm \<noteq> GTE then Some (Inl BadOpcodesException, this)
      else if highOpParm \<noteq> LT \<and> highOpParm \<noteq> LTE then Some (Inl BadOpcodesException, this)
      else
        let this1 = this\<lparr>lowValInt := lowValParm\<rparr>;
            this2 = this1\<lparr>highValInt := highValParm\<rparr>
        in if sint (highValInt this2) < sint (lowValInt this2)
           then Some (Inl BadScanrangeException, this2)
           else
             let this3 = this2\<lparr>lowOp := lowOpParm\<rparr>;
                 this4 = this3\<lparr>highOp := highOpParm\<rparr>;
                 this5 = this4\<lparr>scanExecuting := True\<rparr>;
                 this6 = this5\<lparr>currentPageNum := rootPageNo (indexMetaInfo this5)\<rparr>
             in (case initPageId fuel c this6 of
                   None \<Rightarrow> None
                 | Some (Inl e, this7) \<Rightarrow> Some (Inl e, this7)
                 | Some (Inr u, this7) \<Rightarrow> Some (initEntryIndex c this7)))"

text \<open>
  \<^verbatim>\<open>scanNext(RecordId &outRid)\<close>: the out-parameter is an argument and, whether
  the call returns or raises, the third component of the result.
\<close>

definition scanNext ::
  "Consts \<Rightarrow> BTreeIndex \<Rightarrow> RecordId \<Rightarrow> (exn + unit) \<times> BTreeIndex \<times> RecordId" where
  "scanNext c this outRid =
     (if \<not> scanExecuting this then (Inl ScanNotInitializedException, this, outRid)
      else
        (case currentLeaf c this of
           Inl e \<Rightarrow> (Inl e, this, outRid)
         | Inr node \<Rightarrow>
             let outRid1 = outRid\<lparr>page_number := page_number (ridArray node ! nextEntry this)\<rparr>;
                 outRid2 = outRid1\<lparr>slot_number := slot_number (ridArray node ! nextEntry this)\<rparr>
             in if ridArray node ! nextEntry this = emptyRid
                then (Inl IndexScanCompletedException, this, outRid2)
                else
                  let val = LeafNodeInt.keyArray node ! nextEntry this in
                  if sint (highValInt this) < sint val
                  then (Inl IndexScanCompletedException, this, outRid2)
                  else if val = highValInt this \<and> highOp this = LT
                  then (Inl IndexScanCompletedException, this, outRid2)
                  else (case setNextEntry c this of (r, this') \<Rightarrow> (r, this', outRid2))))"

definition endScan :: "BTreeIndex \<Rightarrow> (exn + unit) \<times> BTreeIndex" where
  "endScan this =
     (if \<not> scanExecuting this then (Inl ScanNotInitializedException, this)
      else
        let this1 = this\<lparr>scanExecuting := False\<rparr>
        in (Inr (), this1\<lparr>file' := unPinPage (file' this1) (currentPageNum this1) False\<rparr>))"

subsection \<open>Constructor\<close>

text \<open>\<^verbatim>\<open>idxStr << relationName << ',' << attrByteOffset\<close>: the offset in decimal.\<close>

function dec_of_nat :: "nat \<Rightarrow> string" where
  "dec_of_nat n =
     (if n < 10 then [char_of (48 + n)]
      else dec_of_nat (n div 10) @ [char_of (48 + n mod 10)])"
  by pat_completeness auto
termination
  by (relation "measure (\<lambda>n. n)") auto

declare dec_of_nat.simps [simp del]

definition getIndexName :: "string \<Rightarrow> int \<Rightarrow> string" where
  "getIndexName relName off =
     relName @ '','' @ (if off < 0 then ''-'' @ dec_of_nat (nat (- off)) else dec_of_nat (nat off))"

text \<open>
  \<^verbatim>\<open>*((int *)(record + attrByteOffset))\<close> where \<open>record\<close> is the \<^verbatim>\<open>c_str()\<close> of the
  record, that is its bytes and a final 0: the four bytes from the offset on, the
  first one least significant. This is the little-endian order of the machines
  the engine runs on; the spec says host byte order.
\<close>

definition int_at :: "8 word list \<Rightarrow> int \<Rightarrow> exn + key" where
  "int_at record off =
     (let bytes = record @ [0] in
      if 0 \<le> off \<and> nat off + 4 \<le> length bytes then
        (let b = drop (nat off) bytes in
         Inr (ucast (b ! 0) + 256 * ucast (b ! 1) + 65536 * ucast (b ! 2)
              + 16777216 * ucast (b ! 3)))
      else Inl OutsideModel)"

text \<open>
  Modelled from the spec: the file scan of the base relation (\<^verbatim>\<open>FileScan\<close> is not
  in the sources) delivers the records of the relation in order, each with its
  record id, and then raises end-of-file, which ends the loop of the constructor.
  Any other exception leaves the constructor.
\<close>

fun bulk_build ::
  "nat \<Rightarrow> Consts \<Rightarrow> BTreeIndex \<Rightarrow> (RecordId \<times> 8 word list) list \<Rightarrow> (exn + BTreeIndex) option" where
  "bulk_build fuel c this [] = Some (Inr this)"
| "bulk_build fuel c this ((scanRid, recordStr) # rest) =
     (case int_at recordStr (attrByteOffset this) of
        Inl e \<Rightarrow> Some (Inl e)
      | Inr k \<Rightarrow>
          (case insertEntry fuel c this k scanRid of
             None \<Rightarrow> None
           | Some (Inl e, this') \<Rightarrow> Some (Inl e)
           | Some (Inr u, this') \<Rightarrow> bulk_build fuel c this' rest))"

text \<open>
  The constructor. \<open>this\<close> is the object before the constructor runs: the members
  that the constructor does not assign keep what they hold there. \<open>newFile\<close> is
  the buffer manager \<^verbatim>\<open>bufMgrIn\<close> together with the file that
  \<^verbatim>\<open>new BlobFile(outIndexName, true)\<close> creates; \<open>relation\<close> is the content of the
  base relation. The result is the object and \<^verbatim>\<open>outIndexName\<close>.
\<close>

definition BTreeIndex_new ::
  "nat \<Rightarrow> Consts \<Rightarrow> BTreeIndex \<Rightarrow> BufFile \<Rightarrow> (RecordId \<times> 8 word list) list
     \<Rightarrow> string \<Rightarrow> int \<Rightarrow> Datatype \<Rightarrow> (exn + BTreeIndex \<times> string) option" where
  "BTreeIndex_new fuel c this newFile relation relName off aType =
     (let this1 = this\<lparr>attrByteOffset := off, attributeType := aType\<rparr>;
          outIndexName = getIndexName relName off;
          meta1 = (indexMetaInfo this1)
                    \<lparr>relationName :=
                       memcpy (relationName (indexMetaInfo this1)) relName
                         (min 20 (length relName)),
                     IndexMetaInfo.attrByteOffset := off,
                     attrType := aType\<rparr>;
          this2 = this1\<lparr>indexMetaInfo := meta1, file' := newFile\<rparr>
      in case allocPage (file' this2) of
           (root, f1) \<Rightarrow>
             let this3 = this2\<lparr>file' := f1,
                              indexMetaInfo := (indexMetaInfo this2)\<lparr>rootPageNo := root\<rparr>\<rparr>;
                 f2 = setNode (file' this3) root (LeafPage (new_LeafNodeInt c));
                 f3 = unPinPage f2 root True;
                 this4 = this3\<lparr>file' := f3\<rparr>
             in (case bulk_build fuel c this4 relation of
                   None \<Rightarrow> None
                 | Some (Inl e) \<Rightarrow> Some (Inl e)
                 | Some (Inr this5) \<Rightarrow> Some (Inr (this5, outIndexName))))"

subsection \<open>Observing the leaf chain\<close>

text \<open>
  The occupied entries of a leaf are those below its length \<^verbatim>\<open>getLeafLen\<close>. The
  leaf chain starts at the leaf that the leftmost child pointers lead to from the
  root, and follows \<open>rightSibPageNo\<close> until it is 0. Both walks are bounded by
  their first argument.
\<close>

definition occupied :: "Consts \<Rightarrow> LeafNodeInt \<Rightarrow> (key \<times> RecordId) list" where
  "occupied c node = take (getLeafLen c node) (zip (LeafNodeInt.keyArray node) (ridArray node))"

fun leftmostLeaf :: "nat \<Rightarrow> BufFile \<Rightarrow> PageId \<Rightarrow> PageId option" where
  "leftmostLeaf 0 f pid = None"
| "leftmostLeaf (Suc n) f pid =
     (case map_of (pages f) pid of
        None \<Rightarrow> None
      | Some (LeafPage _) \<Rightarrow> Some pid
      | Some (NonLeafPage node) \<Rightarrow> leftmostLeaf n f (pageNoArray node ! 0))"

fun leafChain :: "nat \<Rightarrow> Consts \<Rightarrow> BufFile \<Rightarrow> PageId \<Rightarrow> (key \<times> RecordId) list option" where
  "leafChain 0 c f pid = None"
| "leafChain (Suc n) c f pid =
     (if pid = 0 then Some []
      else
        (case map_of (pages f) pid of
           Some (LeafPage node) \<Rightarrow>
             (case leafChain n c f (rightSibPageNo node) of
                None \<Rightarrow> None
              | Some es \<Rightarrow> Some (occupied c node @ es))
         | Some (NonLeafPage _) \<Rightarrow> None
         | None \<Rightarrow> None))"

definition leafChainKeys :: "nat \<Rightarrow> Consts \<Rightarrow> BTreeIndex \<Rightarrow> int list option" where
  "leafChainKeys n c this =
     (case leftmostLeaf n (file' this) (rootPageNo (indexMetaInfo this)) of
        None \<Rightarrow> None
      | Some pid \<Rightarrow> map_option (map (sint \<circ> fst)) (leafChain n c (file' this) pid))"

subsection \<open>A client of the index\<close>

text \<open>
  A client calls the public methods one after the other and catches what they
  raise; the object stays as the exception left it. \<open>run\<close> returns what each call
  did (its outcome and the content of the client's \<^verbatim>\<open>RecordId\<close> variable after it)
  and the final object, or \<open>None\<close> when a call reached the recursion bound.
\<close>

datatype call =
    InsertEntry key RecordId
  | StartScan key Operator key Operator
  | ScanNext
  | EndScan

fun run ::
  "nat \<Rightarrow> Consts \<Rightarrow> BTreeIndex \<Rightarrow> RecordId \<Rightarrow> call list
     \<Rightarrow> (((exn + unit) \<times> RecordId) list \<times> BTreeIndex) option" where
  "run fuel c this outRid [] = Some ([], this)"
| "run fuel c this outRid (InsertEntry k rid # calls) =
     (case insertEntry fuel c this k rid of
        None \<Rightarrow> None
      | Some (r, this') \<Rightarrow>
          map_option (\<lambda>(outs, final). ((r, outRid) # outs, final))
            (run fuel c this' outRid calls))"
| "run fuel c this outRid (StartScan lowVal lowOpParm highVal highOpParm # calls) =
     (case startScan fuel c this lowVal lowOpParm highVal highOpParm of
        None \<Rightarrow> None
      | Some (r, this') \<Rightarrow>
          map_option (\<lambda>(outs, final). ((r, outRid) # outs, final))
            (run fuel c this' outRid calls))"
| "run fuel c this outRid (ScanNext # calls) =
     (case scanNext c this outRid of
        (r, this', outRid') \<Rightarrow>
          map_option (\<lambda>(outs, final). ((r, outRid') # outs, final))
            (run fuel c this' outRid' calls))"
| "run fuel c this outRid (EndScan # calls) =
     (case endScan this of
        (r, this') \<Rightarrow>
          map_option (\<lambda>(outs, final). ((r, outRid) # outs, final))
            (run fuel c this' outRid calls))"

subsection \<open>Concrete inputs\<close>

text \<open>
  The capacities of the end-to-end scenarios of the specification, a new index
  file under a buffer manager that raises when asked for a page that does not
  exist, the same under a buffer manager that delivers a zero-filled page
  instead (with the leaf view \<open>zeroLeaf\<close>), and an object before its constructor
  has run.
\<close>

definition c44 :: Consts where
  "c44 = \<lparr>INTARRAYLEAFSIZE = 4, INTARRAYNONLEAFSIZE = 4\<rparr>"

definition newFile_raising :: BufFile where
  "newFile_raising = \<lparr>pages = [], num_pages = 0, absent = None\<rparr>"

definition zeroLeaf :: LeafNodeInt where
  "zeroLeaf = new_LeafNodeInt c44"

definition zeroPage :: Page where
  "zeroPage = NonLeafPage (new_NonLeafNodeInt c44)"

definition newFile_zeros :: BufFile where
  "newFile_zeros = \<lparr>pages = [], num_pages = 0, absent = Some zeroPage\<rparr>"

definition raw_object :: BTreeIndex where
  "raw_object =
     \<lparr>file' = newFile_raising,
      indexMetaInfo =
        \<lparr>relationName = [], IndexMetaInfo.attrByteOffset = 0, attrType = INTEGER,
         rootPageNo = 0\<rparr>,
      attributeType = INTEGER, attrByteOffset = 0, scanExecuting = False, nextEntry = 0,
      currentPageNum = 0, currentPageData = None, lowValInt = 0, highValInt = 0,
      lowOp = LT, highOp = LT\<rparr>"

text \<open>The index over the empty relation \<open>rel\<close>, attribute offset 0.\<close>

definition fresh_index :: "BufFile \<Rightarrow> (exn + BTreeIndex \<times> string) option" where
  "fresh_index newFile = BTreeIndex_new 1 c44 raw_object newFile [] ''rel'' 0 INTEGER"

text \<open>The calls \<^verbatim>\<open>insertEntry(&k, RecordId{1, k})\<close> for \<open>k\<close> from 1 to \<open>n\<close>.\<close>

definition ascending_inserts :: "nat \<Rightarrow> call list" where
  "ascending_inserts n =
     map (\<lambda>i. InsertEntry (word_of_nat i) \<lparr>page_number = 1, slot_number = i\<rparr>) [1 ..< Suc n]"

text \<open>
  What a client gets that constructs the index over the empty relation on
  \<open>newFile\<close> and then makes the calls.
\<close>

definition after ::
  "BufFile \<Rightarrow> call list \<Rightarrow> (((exn + unit) \<times> RecordId) list \<times> BTreeIndex) option" where
  "after newFile calls =
     (case fresh_index newFile of
        Some (Inr (this, nm)) \<Rightarrow> run 3 c44 this emptyRid calls
      | Some (Inl e) \<Rightarrow> None
      | None \<Rightarrow> None)"

definition final_object :: "BufFile \<Rightarrow> call list \<Rightarrow> BTreeIndex" where
  "final_object newFile calls =
     (case after newFile calls of Some (outs, final) \<Rightarrow> final | None \<Rightarrow> raw_object)"

definition two_entries :: "call list" where
  "two_entries =
     [InsertEntry 42 \<lparr>page_number = 5, slot_number = 7\<rparr>,
      InsertEntry 43 \<lparr>page_number = 5, slot_number = 8\<rparr>]"

definition rid5 :: RecordId where
  "rid5 = \<lparr>page_number = 1, slot_number = 5\<rparr>"




text \<open>
  The object with another attribute type: the constructor stores its \<^verbatim>\<open>attrType\<close>
  argument in \<open>attributeType\<close> and in \<open>indexMetaInfo.attrType\<close>.
\<close>

definition with_attrType :: "Datatype \<Rightarrow> BTreeIndex \<Rightarrow> BTreeIndex" where
  "with_attrType a this =
     this\<lparr>attributeType := a, indexMetaInfo := (indexMetaInfo this)\<lparr>attrType := a\<rparr>\<rparr>"



section \<open>Properties\<close>

subsection \<open>Scanning\<close>




lemma currentLeaf_nextEntry [simp]:
  "currentLeaf c (this\<lparr>nextEntry := n\<rparr>) = currentLeaf c this"
  by (simp add: currentLeaf_def split: option.splits)








text \<open>
  Claim C8. On an active scan \<^verbatim>\<open>scanNext\<close> assigns the record id stored at the
  current entry to \<open>outRid\<close> before it checks for the end of the scan: whatever
  the outcome of the call, \<open>outRid\<close> holds that record id afterwards. So when the
  current slot is empty, \<^verbatim>\<open>IndexScanCompletedException\<close> is raised and \<open>outRid\<close> is
  the empty record id.
\<close>

theorem scanNext_assigns_outRid_first:
  "scanExecuting this \<Longrightarrow> currentLeaf c this = Inr node \<Longrightarrow>
   snd (snd (scanNext c this outRid)) = ridArray node ! nextEntry this
   \<and> (ridArray node ! nextEntry this = emptyRid \<longrightarrow>
        scanNext c this outRid = (Inl IndexScanCompletedException, this, emptyRid))"
  by (auto simp: scanNext_def Let_def split: prod.splits)

theorem scanNext_assigns_outRid_first_witness:
  "scanNext c44
     (final_object newFile_zeros
        [InsertEntry 42 \<lparr>page_number = 5, slot_number = 7\<rparr>, StartScan 0 GTE 100 LTE, ScanNext])
     \<lparr>page_number = 5, slot_number = 7\<rparr>
   = (Inl IndexScanCompletedException,
      final_object newFile_zeros
        [InsertEntry 42 \<lparr>page_number = 5, slot_number = 7\<rparr>, StartScan 0 GTE 100 LTE, ScanNext],
      emptyRid)"
proof -
  let ?S = "final_object newFile_zeros
        [InsertEntry 42 \<lparr>page_number = 5, slot_number = 7\<rparr>, StartScan 0 GTE 100 LTE, ScanNext]"
  have h1: "scanExecuting ?S" by code_simp
  have h2: "currentLeaf c44 ?S = Inr zeroLeaf" by code_simp
  have h3: "ridArray zeroLeaf ! nextEntry ?S = emptyRid" by code_simp
  from scanNext_assigns_outRid_first [OF h1 h2, of "\<lparr>page_number = 5, slot_number = 7\<rparr>"] h3
  show ?thesis by blast
qed



text \<open>
  Claim C6, as amended. \<^verbatim>\<open>startScan\<close> raises \<^verbatim>\<open>BadOpcodesException\<close> when \<open>lowOp\<close> is
  neither \<open>GT\<close> nor \<open>GTE\<close> or \<open>highOp\<close> is neither \<open>LT\<close> nor \<open>LTE\<close>, and then the
  object is unchanged. With valid operators and a low value greater than the
  high value it raises \<^verbatim>\<open>BadScanrangeException\<close>; the two values are then already
  stored in \<open>lowValInt\<close> and \<open>highValInt\<close>, and nothing else of the object has
  changed (\<open>lowOp\<close>, \<open>highOp\<close>, \<open>scanExecuting\<close> and \<open>currentPageNum\<close> in
  particular).
\<close>

theorem startScan_validation:
  "((lop \<noteq> GT \<and> lop \<noteq> GTE) \<or> (hop \<noteq> LT \<and> hop \<noteq> LTE) \<longrightarrow>
      startScan fuel c this lo lop hi hop = Some (Inl BadOpcodesException, this))
   \<and> ((lop = GT \<or> lop = GTE) \<and> (hop = LT \<or> hop = LTE) \<and> sint hi < sint lo \<longrightarrow>
      startScan fuel c this lo lop hi hop
        = Some (Inl BadScanrangeException, this\<lparr>lowValInt := lo, highValInt := hi\<rparr>))"
  by (auto simp: startScan_def Let_def)

theorem startScan_validation_witness:
  "startScan 1 c44 (final_object newFile_raising two_entries) 0 LT 1 LT
     = Some (Inl BadOpcodesException, final_object newFile_raising two_entries)
   \<and> startScan 1 c44 (final_object newFile_raising two_entries) 5 GT 3 LT
     = Some (Inl BadScanrangeException,
         (final_object newFile_raising two_entries)\<lparr>lowValInt := 5, highValInt := 3\<rparr>)"
proof -
  have h: "sint (3 :: key) < sint (5 :: key)" by simp
  show ?thesis
    using startScan_validation [of LT LT 1 c44 "final_object newFile_raising two_entries" 0 1]
      startScan_validation [of GT LT 1 c44 "final_object newFile_raising two_entries" 5 3] h
    by simp
qed


text \<open>
  The claim C6 as stated (every validation error is raised before any change of
  the scan state) fails: a call with the range \<open>(5, 3)\<close> on an index whose
  \<open>lowValInt\<close> and \<open>highValInt\<close> are 0 raises \<^verbatim>\<open>BadScanrangeException\<close> and leaves 5
  and 3 there.
\<close>

theorem startScan_mutates_before_range_check:
  "map_option (\<lambda>(r, this'). (r, lowValInt this', highValInt this'))
     (startScan 1 c44 (final_object newFile_raising two_entries) 5 GT 3 LT)
     = Some (Inl BadScanrangeException, 5, 3)
   \<and> (lowValInt (final_object newFile_raising two_entries),
       highValInt (final_object newFile_raising two_entries)) = (0, 0)"
  by code_simp

lemma initPageId_scanExecuting:
  "initPageId n c this = Some (r, this') \<Longrightarrow> scanExecuting this' = scanExecuting this"
proof (induction n arbitrary: this)
  case 0
  then show ?case by simp
next
  case (Suc n)
  show ?case
  proof (cases "getPageByPid (file' this) (currentPageNum this)")
    case (Inl e)
    with Suc.prems show ?thesis by simp
  next
    case (Inr page)
    show ?thesis
    proof (cases page)
      case (LeafPage l)
      with Inr Suc.prems show ?thesis by (auto simp: Let_def)
    next
      case (NonLeafPage nl)
      with Inr Suc.prems Suc.IH show ?thesis by (fastforce simp: Let_def)
    qed
  qed
qed

lemma moveToNextPage_scanExecuting:
  "moveToNextPage this node = (r, this') \<Longrightarrow> scanExecuting this' = scanExecuting this"
  by (auto simp: moveToNextPage_def Let_def split: sum.splits)

lemma initEntryIndex_scanExecuting:
  "initEntryIndex c this = (r, this') \<Longrightarrow> scanExecuting this' = scanExecuting this"
  by (auto simp: initEntryIndex_def split: sum.splits option.splits
      dest: moveToNextPage_scanExecuting)


text \<open>
  Claim C9. \<^verbatim>\<open>startScan\<close> sets \<open>scanExecuting\<close> before it descends the tree. So
  whenever a call with valid operators and a valid range ends, by returning or
  by raising from the descent or from positioning in the leaf, \<open>scanExecuting\<close> is
  set and a following \<^verbatim>\<open>endScan\<close> does not raise \<^verbatim>\<open>ScanNotInitializedException\<close>.
\<close>

theorem startScan_sets_scanExecuting_first:
  "(lop = GT \<or> lop = GTE) \<Longrightarrow> (hop = LT \<or> hop = LTE) \<Longrightarrow> \<not> sint hi < sint lo \<Longrightarrow>
   startScan fuel c this lo lop hi hop = Some (r, this') \<Longrightarrow>
   scanExecuting this' \<and> fst (endScan this') \<noteq> Inl ScanNotInitializedException"
proof -
  assume ops: "lop = GT \<or> lop = GTE" "hop = LT \<or> hop = LTE" and rng: "\<not> sint hi < sint lo"
    and res: "startScan fuel c this lo lop hi hop = Some (r, this')"
  let ?this6 = "this\<lparr>lowValInt := lo, highValInt := hi, lowOp := lop, highOp := hop,
                    scanExecuting := True, currentPageNum := rootPageNo (indexMetaInfo this)\<rparr>"
  from ops rng res have cases:
    "(case initPageId fuel c ?this6 of
        None \<Rightarrow> None
      | Some (Inl e, this7) \<Rightarrow> Some (Inl e, this7)
      | Some (Inr u, this7) \<Rightarrow> Some (initEntryIndex c this7)) = Some (r, this')"
    by (auto simp: startScan_def Let_def)
  then obtain r7 this7 where i: "initPageId fuel c ?this6 = Some (r7, this7)"
    by (cases "initPageId fuel c ?this6") auto
  have e7: "scanExecuting this7"
    using initPageId_scanExecuting [OF i] by simp
  have "scanExecuting this'"
  proof (cases r7)
    case (Inl e)
    with cases i e7 show ?thesis by simp
  next
    case (Inr u)
    with cases i have "initEntryIndex c this7 = (r, this')" by simp
    from initEntryIndex_scanExecuting [OF this] e7 show ?thesis by simp
  qed
  then show ?thesis by (simp add: endScan_def Let_def)
qed

theorem startScan_sets_scanExecuting_first_witness:
  "fst (the (startScan 1 c44 (final_object newFile_raising []) 0 GTE 100 LTE))
     = Inl BufMgrException
   \<and> scanExecuting (snd (the (startScan 1 c44 (final_object newFile_raising []) 0 GTE 100 LTE)))
   \<and> fst (endScan (snd (the (startScan 1 c44 (final_object newFile_raising []) 0 GTE 100 LTE))))
     \<noteq> Inl ScanNotInitializedException"
proof -
  let ?S = "final_object newFile_raising []"
  let ?R = "the (startScan 1 c44 ?S 0 GTE 100 LTE)"
  have e: "startScan 1 c44 ?S 0 GTE 100 LTE = Some (Inl BufMgrException, snd ?R)"
    by code_simp
  have r: "\<not> sint (100 :: key) < sint (0 :: key)" by simp
  have f: "fst ?R = Inl BufMgrException" by code_simp
  from startScan_sets_scanExecuting_first [OF _ _ r e] f show ?thesis by simp
qed




lemma rightSibPageNo_new_LeafNodeInt [simp]: "rightSibPageNo (new_LeafNodeInt c) = 0"
  by (simp add: new_LeafNodeInt_def)








subsection \<open>Inserting\<close>

lemma readPage_setNode:
  "readPage (setNode f pid node) p = (if p = pid then Inr node else readPage f p)"
  by (simp add: readPage_def setNode_def split: option.splits)

lemma num_pages_setNode [simp]: "num_pages (setNode f pid node) = num_pages f"
  by (simp add: setNode_def)

lemma readPage_num_pages [simp]:
  "readPage (f\<lparr>num_pages := n\<rparr>) p = readPage f p"
  by (simp add: readPage_def split: option.splits)

lemma rightSibPageNo_insertToLeafNode_loop [simp]:
  "rightSibPageNo (insertToLeafNode_loop node i index) = rightSibPageNo node"
  by (induction node i index rule: insertToLeafNode_loop.induct)
     (subst insertToLeafNode_loop.simps, simp)

lemma rightSibPageNo_insertToLeafNode [simp]:
  "rightSibPageNo (insertToLeafNode c node index k rid) = rightSibPageNo node"
  by (simp add: insertToLeafNode_def Let_def)












text \<open>
  Claim C4. When the recursive insert of \<^verbatim>\<open>insertEntry\<close> returns page number 0 (no
  split), \<open>rootPageNo\<close> is unchanged. When it returns a new page and a mid-value,
  \<^verbatim>\<open>insertEntry\<close> allocates the next page of the file, writes a non-leaf node
  there whose first key is the mid-value, whose first child is the old root and
  whose second child is the new page, all other entries being 0, and makes this
  page the root; no other page changes.
\<close>

theorem insertEntry_root:
  "(insertHelper fuel c (file' this) (rootPageNo (indexMetaInfo this)) k rid indeterminate
      = Some (Inr (0, mv), f1) \<longrightarrow>
      insertEntry fuel c this k rid = Some (Inr (), this\<lparr>file' := f1\<rparr>)
      \<and> rootPageNo (indexMetaInfo (this\<lparr>file' := f1\<rparr>)) = rootPageNo (indexMetaInfo this))
   \<and> (insertHelper fuel c (file' this) (rootPageNo (indexMetaInfo this)) k rid indeterminate
        = Some (Inr (newPageId, midVal), f1) \<and> newPageId \<noteq> 0 \<and> 0 < INTARRAYNONLEAFSIZE c \<longrightarrow>
      (\<exists>this' newRoot.
         insertEntry fuel c this k rid = Some (Inr (), this')
         \<and> rootPageNo (indexMetaInfo this') = Suc (num_pages f1)
         \<and> num_pages (file' this') = Suc (num_pages f1)
         \<and> readPage (file' this') (Suc (num_pages f1)) = Inr (NonLeafPage newRoot)
         \<and> NonLeafNodeInt.keyArray newRoot ! 0 = midVal
         \<and> pageNoArray newRoot ! 0 = rootPageNo (indexMetaInfo this)
         \<and> pageNoArray newRoot ! 1 = newPageId
         \<and> (\<forall>i. 0 < i \<and> i < INTARRAYNONLEAFSIZE c \<longrightarrow> NonLeafNodeInt.keyArray newRoot ! i = 0)
         \<and> (\<forall>i. 1 < i \<and> i \<le> INTARRAYNONLEAFSIZE c \<longrightarrow> pageNoArray newRoot ! i = 0)
         \<and> (\<forall>p. p \<noteq> Suc (num_pages f1) \<longrightarrow> readPage (file' this') p = readPage f1 p)))"
  by (auto simp: insertEntry_def allocPage_def Let_def new_NonLeafNodeInt_def unPinPage_def
      readPage_setNode nth_list_update)


theorem insertEntry_root_witness:
  "map_option (\<lambda>(r, this'). (r, rootPageNo (indexMetaInfo this')))
     (insertEntry 3 c44 (final_object newFile_raising []) 5 rid5) = Some (Inr (), 1)
   \<and> map_option (\<lambda>(r, this'). (r, rootPageNo (indexMetaInfo this')))
     (insertEntry 3 c44 (final_object newFile_raising (ascending_inserts 4)) 5 rid5)
     = Some (Inr (), 3)"
proof -
  let ?A = "final_object newFile_raising []"
  let ?B = "final_object newFile_raising (ascending_inserts 4)"
  let ?hA = "insertHelper 3 c44 (file' ?A) (rootPageNo (indexMetaInfo ?A)) 5 rid5 indeterminate"
  let ?hB = "insertHelper 3 c44 (file' ?B) (rootPageNo (indexMetaInfo ?B)) 5 rid5 indeterminate"
  have a: "?hA = Some (Inr (0, indeterminate), snd (the ?hA))" by code_simp
  have ra: "rootPageNo (indexMetaInfo ?A) = 1" by code_simp
  have b: "?hB = Some (Inr (2, 3), snd (the ?hB))" by code_simp
  have nb: "Suc (num_pages (snd (the ?hB))) = 3" by code_simp
  have A: "insertEntry 3 c44 ?A 5 rid5 = Some (Inr (), ?A\<lparr>file' := snd (the ?hA)\<rparr>)"
    using insertEntry_root [of 3 c44 ?A 5 rid5 indeterminate "snd (the ?hA)"] a by blast
  have "\<exists>this'. insertEntry 3 c44 ?B 5 rid5 = Some (Inr (), this')
          \<and> rootPageNo (indexMetaInfo this') = Suc (num_pages (snd (the ?hB)))"
    using insertEntry_root [of 3 c44 ?B 5 rid5 _ "snd (the ?hB)" 2 3] b
    by (simp add: c44_def) blast
  then obtain this' where B: "insertEntry 3 c44 ?B 5 rid5 = Some (Inr (), this')"
    and rb: "rootPageNo (indexMetaInfo this') = 3"
    using nb by auto
  show ?thesis
    unfolding A B using ra rb by simp
qed



subsection \<open>The attribute type\<close>

lemma with_attrType_simps [simp]:
  "file' (with_attrType a this) = file' this"
  "rootPageNo (indexMetaInfo (with_attrType a this)) = rootPageNo (indexMetaInfo this)"
  "attrByteOffset (with_attrType a this) = attrByteOffset this"
  "scanExecuting (with_attrType a this) = scanExecuting this"
  "nextEntry (with_attrType a this) = nextEntry this"
  "currentPageNum (with_attrType a this) = currentPageNum this"
  "currentPageData (with_attrType a this) = currentPageData this"
  "lowValInt (with_attrType a this) = lowValInt this"
  "highValInt (with_attrType a this) = highValInt this"
  "lowOp (with_attrType a this) = lowOp this"
  "highOp (with_attrType a this) = highOp this"
  by (simp_all add: with_attrType_def)

lemma with_attrType_updates [simp]:
  "(with_attrType a this)\<lparr>file' := f\<rparr> = with_attrType a (this\<lparr>file' := f\<rparr>)"
  "(with_attrType a this)\<lparr>scanExecuting := b\<rparr> = with_attrType a (this\<lparr>scanExecuting := b\<rparr>)"
  "(with_attrType a this)\<lparr>nextEntry := n\<rparr> = with_attrType a (this\<lparr>nextEntry := n\<rparr>)"
  "(with_attrType a this)\<lparr>currentPageNum := p\<rparr> = with_attrType a (this\<lparr>currentPageNum := p\<rparr>)"
  "(with_attrType a this)\<lparr>currentPageData := d\<rparr> = with_attrType a (this\<lparr>currentPageData := d\<rparr>)"
  "(with_attrType a this)\<lparr>lowValInt := k\<rparr> = with_attrType a (this\<lparr>lowValInt := k\<rparr>)"
  "(with_attrType a this)\<lparr>highValInt := k\<rparr> = with_attrType a (this\<lparr>highValInt := k\<rparr>)"
  "(with_attrType a this)\<lparr>lowOp := op\<rparr> = with_attrType a (this\<lparr>lowOp := op\<rparr>)"
  "(with_attrType a this)\<lparr>highOp := op\<rparr> = with_attrType a (this\<lparr>highOp := op\<rparr>)"
  by (simp_all add: with_attrType_def)

lemma with_attrType_root [simp]:
  "(with_attrType a this)\<lparr>indexMetaInfo := (indexMetaInfo (with_attrType a this))\<lparr>rootPageNo := p\<rparr>\<rparr>
     = with_attrType a (this\<lparr>indexMetaInfo := (indexMetaInfo this)\<lparr>rootPageNo := p\<rparr>\<rparr>)"
  by (simp add: with_attrType_def)

lemma with_attrType_twice [simp]:
  "with_attrType b (with_attrType a this) = with_attrType b this"
  by (simp add: with_attrType_def)


lemma currentLeaf_attrType [simp]:
  "currentLeaf c (with_attrType a this) = currentLeaf c this"
  by (simp add: currentLeaf_def split: option.splits)















subsection \<open>The leaf chain\<close>

text \<open>
  Claim C1 fails on the code. With the capacities \<open>L = N = 4\<close>, on the index over
  the empty relation, the fourteen calls \<^verbatim>\<open>insertEntry(&k, RecordId{1, k})\<close> for
  \<open>k\<close> from 1 to 14 all return normally, and afterwards the occupied entries of
  the leaves in \<open>rightSibPageNo\<close> order hold the keys 1 to 10, then 14, then 11
  to 13. The thirteenth call splits the full root; \<^verbatim>\<open>insertHelper\<close> then inserts
  the new child into the new right node one position too far to the right, so
  that a child page number 0 stays before it and \<^verbatim>\<open>getNonLeafLen\<close> ends the node
  there. The leaf with the keys 11 to 13 cannot be reached from the root any
  more, and key 14 goes to the leaf before it.
\<close>

theorem ascending_inserts_break_leaf_chain:
  "map_option (\<lambda>(outs, final). (map fst outs, leafChainKeys 7 c44 final))
     (after newFile_raising (ascending_inserts 14))
   = Some (replicate 14 (Inr ()), Some [1, 2, 3, 4, 5, 6, 7, 8, 9, 10, 14, 11, 12, 13])
   \<and> \<not> sorted [1, 2, 3, 4, 5, 6, 7, 8, 9, 10, 14, 11, 12, 13 :: int]"
  by code_simp

end
